theory Spec2Isabelle
  imports Complex_Main
begin

section \<open>RCLF simulation engine: chemistry, ledger and particles\<close>

text \<open>
  A shallow embedding of the simulation engine of the repository. Two versions of the
  engine are in the repository: \<^verbatim>\<open>src/unnamed/part_000\<close> (the later one, with the
  savings field of a snapshot, the sedimenting state of a crystal and the normalised
  30-day window) and \<^verbatim>\<open>src/simulation.js\<close> (the earlier one). The definitions below
  embed \<^verbatim>\<open>src/unnamed/part_000\<close>; where the earlier file differs in something a
  theorem is about, the earlier variant has a definition of its own, named with the
  suffix \<open>_v1\<close>. \<^verbatim>\<open>ChemistryEngine\<close> is the same in both files but for the daily fixed
  cost (1500 in the earlier file) and the savings field of a snapshot, and so is the
  loop of \<^verbatim>\<open>updateParticles\<close> but for the arguments of \<^verbatim>\<open>update\<close>.

  JavaScript numbers are modelled as \<^typ>\<open>real\<close>: the arithmetic is exact, so rounding,
  infinities and NaN of IEEE doubles are outside the model. The result of
  \<^verbatim>\<open>Math.floor\<close> is an \<^typ>\<open>int\<close>. Each call of \<^verbatim>\<open>Math.random()\<close> is an explicit
  argument: the value the call returned.
\<close>

subsection \<open>CONFIG\<close>

definition F_TO_CAF2 :: real where
  "F_TO_CAF2 = 78 / 38"

definition F_TO_CACL2 :: real where
  "F_TO_CACL2 = 111 / 38"

definition PRICE_METALSPAR :: real where
  "PRICE_METALSPAR = 3000"

definition PRICE_ACIDSPAR :: real where
  "PRICE_ACIDSPAR = 5500"

definition COST_CACL2 :: real where
  "COST_CACL2 = 1100"

definition AVOIDED_COST_LIME_SLUDGE :: real where
  "AVOIDED_COST_LIME_SLUDGE = 7237.5"

definition CAPEX :: real where
  "CAPEX = 15000000"

definition OPEX_FIXED_DAY :: real where
  "OPEX_FIXED_DAY = 4800"

definition TARGET_PH :: real where
  "TARGET_PH = 8.2"

text \<open>The capital expenditure of \<^verbatim>\<open>src/simulation.js\<close>.\<close>

definition CAPEX_v1 :: real where
  "CAPEX_v1 = 1000000"

subsection \<open>ChemistryEngine\<close>

text \<open>One entry of \<^verbatim>\<open>history\<close>: \<^verbatim>\<open>{ day, revenue, savings, cost }\<close>.\<close>

record Snapshot =
  day :: int
  revenue :: real
  savings :: real
  cost :: real

record ChemistryEngine =
  currentPH :: real
  totalFInput :: real
  totalFluoriteOutput :: real
  totalCaCl2Used :: real
  totalRevenue :: real
  totalVariableCost :: real
  totalFixedCost :: real
  totalSavings :: real
  simTimeMs :: real
  history :: "Snapshot list"
  lastSnapshotDay :: int
  purityMix :: real

text \<open>The value \<^verbatim>\<open>calculateReaction\<close> returns: \<^verbatim>\<open>{ massF, massFluorite, massCaCl2 }\<close>.\<close>

record Masses =
  massF :: real
  massFluorite :: real
  massCaCl2 :: real

text \<open>The constructor: the state of a new engine.\<close>

definition ChemistryEngine_new :: ChemistryEngine where
  "ChemistryEngine_new =
     \<lparr> currentPH = 7.0, totalFInput = 0, totalFluoriteOutput = 0, totalCaCl2Used = 0,
       totalRevenue = 0, totalVariableCost = 0, totalFixedCost = 0, totalSavings = 0,
       simTimeMs = 0, history = [], lastSnapshotDay = -1, purityMix = 0 \<rparr>"

text \<open>\<^verbatim>\<open>reset()\<close> assigns every field, in the order of the source.\<close>

definition ChemistryEngine_reset :: "ChemistryEngine \<Rightarrow> ChemistryEngine" where
  "ChemistryEngine_reset c =
     c\<lparr> currentPH := 7.0, totalFInput := 0, totalFluoriteOutput := 0, totalCaCl2Used := 0,
        totalRevenue := 0, totalVariableCost := 0, totalSavings := 0, simTimeMs := 0,
        totalFixedCost := 0, history := [], lastSnapshotDay := -1, purityMix := 0 \<rparr>"

text \<open>
  \<^verbatim>\<open>calculateReaction(flowRate, ppmF, dt, speed)\<close>. The engine is passed in and returned
  updated, next to the returned masses; \<open>rnd\<close> is the value of the one call of
  \<^verbatim>\<open>Math.random()\<close>. The locals \<^verbatim>\<open>massF\<close>, \<^verbatim>\<open>massFluorite\<close> and \<^verbatim>\<open>massCaCl2\<close> are \<open>mF\<close>,
  \<open>mFluorite\<close> and \<open>mCaCl2\<close> here, their names being the fields of the returned object.
  A primed name is the value of the field after its assignment
  (\<^verbatim>\<open>this.totalFInput += massF\<close> gives \<open>totalFInput'\<close>); every field is assigned at most
  once, except \<^verbatim>\<open>history\<close>: \<open>pushed\<close> is the list after \<^verbatim>\<open>history.push\<close>, which appends
  at the end, and \<^verbatim>\<open>history.shift()\<close> drops its first entry.
\<close>

definition calculateReaction ::
  "ChemistryEngine \<Rightarrow> real \<Rightarrow> real \<Rightarrow> real \<Rightarrow> real \<Rightarrow> real \<Rightarrow> ChemistryEngine \<times> Masses" where
  "calculateReaction c flowRate ppmF dt speed rnd =
    (let effectiveDt = (dt / 1000) * speed;
         timeMultiplier = 4 * 3600;
         mF = (flowRate * ppmF / 3600) * effectiveDt * timeMultiplier;
         mFluorite = mF * F_TO_CAF2;
         mCaCl2 = mF * F_TO_CACL2;
         totalFInput' = totalFInput c + mF;
         totalFluoriteOutput' = totalFluoriteOutput c + mFluorite;
         totalCaCl2Used' = totalCaCl2Used c + mCaCl2;
         tonsFluorite = mFluorite / 1000000;
         tonsCaCl2 = mCaCl2 / 1000000;
         acidPercent = purityMix c / 100;
         metalPercent = 1 - acidPercent;
         weightedPrice = (acidPercent * PRICE_ACIDSPAR) + (metalPercent * PRICE_METALSPAR);
         totalRevenue' = totalRevenue c + tonsFluorite * weightedPrice;
         totalVariableCost' = totalVariableCost c + tonsCaCl2 * COST_CACL2;
         tonsF = mF / 1000000;
         totalSavings' = totalSavings c + tonsF * AVOIDED_COST_LIME_SLUDGE;
         simTimeMs' = simTimeMs c + effectiveDt * timeMultiplier * 1000;
         totalDays = simTimeMs' / (1000 * 24 * 3600);
         totalFixedCost' = totalDays * OPEX_FIXED_DAY;
         currentDay = \<lfloor>simTimeMs' / (1000 * 24 * 3600)\<rfloor>;
         pushed = history c @
                    [\<lparr> day = currentDay, revenue = totalRevenue', savings = totalSavings',
                       cost = totalVariableCost' + totalFixedCost' \<rparr>];
         history' = (if currentDay > lastSnapshotDay c
                     then (if length pushed > 40 then tl pushed else pushed)
                     else history c);
         lastSnapshotDay' = (if currentDay > lastSnapshotDay c then currentDay
                             else lastSnapshotDay c);
         drift = (rnd - 0.5) * 0.02;
         currentPH' = currentPH c + ((TARGET_PH - currentPH c) * 0.1 + drift)
     in (\<lparr> currentPH = currentPH', totalFInput = totalFInput',
           totalFluoriteOutput = totalFluoriteOutput', totalCaCl2Used = totalCaCl2Used',
           totalRevenue = totalRevenue', totalVariableCost = totalVariableCost',
           totalFixedCost = totalFixedCost', totalSavings = totalSavings',
           simTimeMs = simTimeMs', history = history', lastSnapshotDay = lastSnapshotDay',
           purityMix = purityMix c \<rparr>,
         \<lparr> massF = mF, massFluorite = mFluorite, massCaCl2 = mCaCl2 \<rparr>))"

text \<open>
  The handler of the purity control (\<^verbatim>\<open>Simulation.setupListeners\<close>) is the one place
  outside the engine that writes a field of it: \<^verbatim>\<open>this.chem.purityMix = v\<close>.
\<close>

definition setPurityMix :: "ChemistryEngine \<Rightarrow> real \<Rightarrow> ChemistryEngine" where
  "setPurityMix c v = c\<lparr> purityMix := v \<rparr>"

subsection \<open>Sequences of calls\<close>

text \<open>
  What happens to a running engine: a frame calls \<^verbatim>\<open>calculateReaction\<close> with the four
  controls and a random draw, or the purity control is moved.
\<close>

datatype event =
  Tick real real real real real
| SetPurityMix real

fun handle :: "ChemistryEngine \<Rightarrow> event \<Rightarrow> ChemistryEngine" where
  "handle c (Tick flowRate ppmF dt speed rnd) = fst (calculateReaction c flowRate ppmF dt speed rnd)"
| "handle c (SetPurityMix v) = setPurityMix c v"

fun run :: "ChemistryEngine \<Rightarrow> event list \<Rightarrow> ChemistryEngine" where
  "run c [] = c"
| "run c (e # es) = run (handle c e) es"

text \<open>
  The declared ranges of the controls: flowRate \<open>> 0\<close>, concentration \<open>\<ge> 0\<close>, real delta
  \<open>\<ge> 0\<close>, speed \<open>> 0\<close>, and a purity mix that is a percentage.
\<close>

fun inControlRange :: "event \<Rightarrow> bool" where
  "inControlRange (Tick flowRate ppmF dt speed rnd) \<longleftrightarrow>
     0 < flowRate \<and> 0 \<le> ppmF \<and> 0 \<le> dt \<and> 0 < speed"
| "inControlRange (SetPurityMix v) \<longleftrightarrow> 0 \<le> v \<and> v \<le> 100"

text \<open>
  The days of the snapshots appended along a sequence, in the order of their appending.
  A call appends a snapshot exactly when it changes \<^verbatim>\<open>lastSnapshotDay\<close>, and the new
  value is the day of the snapshot (lemma \<open>calculateReaction_push\<close> below).
\<close>

fun appendedDays :: "ChemistryEngine \<Rightarrow> event list \<Rightarrow> int list" where
  "appendedDays c [] = []"
| "appendedDays c (e # es) =
     (if lastSnapshotDay (handle c e) \<noteq> lastSnapshotDay c then [lastSnapshotDay (handle c e)]
      else []) @ appendedDays (handle c e) es"



subsection \<open>Invariants of the engine\<close>

text \<open>
  The invariant of the mass totals: the product and the reagent are the fluoride input
  times the two stoichiometric ratios.
\<close>

definition stoichiometric :: "ChemistryEngine \<Rightarrow> bool" where
  "stoichiometric c \<longleftrightarrow>
     totalFluoriteOutput c = totalFInput c * F_TO_CAF2 \<and>
     totalCaCl2Used c = totalFInput c * F_TO_CACL2"

text \<open>
  The invariant of the history: at most 40 entries, days strictly increasing, and no
  day beyond \<^verbatim>\<open>lastSnapshotDay\<close>.
\<close>

definition historyOrdered :: "ChemistryEngine \<Rightarrow> bool" where
  "historyOrdered c \<longleftrightarrow>
     length (history c) \<le> 40 \<and>
     sorted_wrt (<) (map day (history c)) \<and>
     (\<forall>h \<in> set (history c). day h \<le> lastSnapshotDay c)"

subsection \<open>Particle\<close>

text \<open>
  The \<^verbatim>\<open>type\<close> of a particle is one of the two strings \<^verbatim>\<open>'crystal'\<close> and \<^verbatim>\<open>'fluid'\<close>. The
  fields \<^verbatim>\<open>x\<close>, \<^verbatim>\<open>y\<close>, \<^verbatim>\<open>size\<close> and \<^verbatim>\<open>type\<close> carry the suffix \<open>_p\<close> here.
\<close>

datatype ParticleType = Crystal | Fluid

record Particle =
  x_p :: real
  y_p :: real
  size_p :: real
  type_p :: ParticleType
  vx :: real
  vy :: real
  alpha :: real
  color :: string
  sedimenting :: bool

text \<open>
  The constructor draws twice from \<^verbatim>\<open>Math.random()\<close>: \<open>rnd 0\<close> for \<^verbatim>\<open>vx\<close>, then \<open>rnd 1\<close> for
  \<^verbatim>\<open>vy\<close>. Its parameter \<^verbatim>\<open>size\<close> is \<open>size'\<close> here.
\<close>

definition Particle_new ::
  "real \<Rightarrow> real \<Rightarrow> real \<Rightarrow> ParticleType \<Rightarrow> (nat \<Rightarrow> real) \<Rightarrow> Particle" where
  "Particle_new x y size' type rnd =
     \<lparr> x_p = x, y_p = y, size_p = size', type_p = type,
       vx = (rnd 0 - 0.5) * 1,
       vy = (if type = Crystal then rnd 1 * 2 else - rnd 1 * 3),
       alpha = 1,
       color = (if type = Crystal then ''#00f2ff'' else ''#39ff14''),
       sedimenting = False \<rparr>"

text \<open>
  \<^verbatim>\<open>update(dt, fluidVelocity, centerY)\<close>, the particle passed in and returned updated. The
  statements of the source are the successive bindings: \<open>p1\<close> after the growth, \<open>p2\<close>
  after the forced transition, \<open>p3\<close> after the change of \<^verbatim>\<open>vy\<close>, \<open>p4\<close> after the change of
  \<^verbatim>\<open>x\<close>. (\<^verbatim>\<open>1 / this.size\<close> is never evaluated at size 0 on a crystal, whose size starts
  at 1 and never decreases; there HOL's \<open>1 / 0 = 0\<close> would differ from JavaScript.)
\<close>

definition Particle_update :: "Particle \<Rightarrow> real \<Rightarrow> real \<Rightarrow> real \<Rightarrow> Particle" where
  "Particle_update p dt fluidVelocity centerY =
    (if type_p p = Crystal then
       (let p1 = (if \<not> sedimenting p \<and> vy p < 0 \<and> size_p p < 6
                  then p\<lparr> size_p := size_p p + 0.015 \<rparr> else p);
            drag = (fluidVelocity * 0.12) * (1 / size_p p1);
            grav = 0.05 * size_p p1;
            p2 = (if y_p p1 < centerY - 130 \<or> size_p p1 \<ge> 6
                  then p1\<lparr> sedimenting := True \<rparr> else p1);
            p3 = (if sedimenting p2
                  then (if vy p2 + grav * 1.5 < 1.5 then p2\<lparr> vy := 1.5 \<rparr>
                        else p2\<lparr> vy := vy p2 + grav * 1.5 \<rparr>)
                  else p2\<lparr> vy := vy p2 + (grav - drag) \<rparr>);
            p4 = p3\<lparr> x_p := x_p p3 + vx p3 \<rparr>
        in p4\<lparr> y_p := y_p p4 + vy p4 \<rparr>)
     else
       (let p1 = p\<lparr> y_p := y_p p - fluidVelocity * 2 \<rparr>;
            p2 = p1\<lparr> x_p := x_p p1 + sin (y_p p1 * 0.05) * 2 \<rparr>
        in p2\<lparr> alpha := alpha p2 - 0.01 \<rparr>))"

definition isOutOfBounds :: "Particle \<Rightarrow> real \<Rightarrow> bool" where
  "isOutOfBounds p centerY \<longleftrightarrow> y_p p > centerY + 220 \<or> y_p p < centerY - 280"

definition isDead :: "Particle \<Rightarrow> bool" where
  "isDead p \<longleftrightarrow> alpha p \<le> 0"

text \<open>A sequence of updates of one particle, each with its own arguments.\<close>

fun updates :: "Particle \<Rightarrow> (real \<times> real \<times> real) list \<Rightarrow> Particle" where
  "updates p [] = p"
| "updates p ((dt, fluidVelocity, centerY) # us) =
     updates (Particle_update p dt fluidVelocity centerY) us"

subsection \<open>PhysicsEngine\<close>

record PhysicsEngine =
  particles :: "Particle list"

definition PhysicsEngine_new :: PhysicsEngine where
  "PhysicsEngine_new = \<lparr> particles = [] \<rparr>"

definition PhysicsEngine_reset :: "PhysicsEngine \<Rightarrow> PhysicsEngine" where
  "PhysicsEngine_reset ph = ph\<lparr> particles := [] \<rparr>"

text \<open>
  \<^verbatim>\<open>spawnParticle(centerX, centerY)\<close>. The draws, in the order of evaluation: \<open>rnd 0\<close> for
  \<^verbatim>\<open>x\<close>, \<open>rnd 1\<close> for the type, \<open>rnd 2\<close> for the start size of a fluid particle only, and
  then the two draws of the constructor.
\<close>

definition spawnParticle ::
  "PhysicsEngine \<Rightarrow> real \<Rightarrow> real \<Rightarrow> (nat \<Rightarrow> real) \<Rightarrow> PhysicsEngine" where
  "spawnParticle ph centerX centerY rnd =
    (let x = centerX + (rnd 0 - 0.5) * 120;
         y = centerY + 180;
         type = (if rnd 1 > 0.3 then Crystal else Fluid);
         startSize = (if type = Crystal then 1 else 1 + rnd 2 * 3);
         rest = (if type = Crystal then (\<lambda>n. rnd (n + 2)) else (\<lambda>n. rnd (n + 3)))
     in ph\<lparr> particles := particles ph @ [Particle_new x y startSize type rest] \<rparr>)"

text \<open>
  The callback of \<^verbatim>\<open>this.particles.forEach((p, i) => ...)\<close> at index \<open>i\<close> of the array as it
  is when the index is visited: the particle there is updated in place, and
  \<^verbatim>\<open>this.particles.splice(i, 1)\<close> removes the element at index \<open>i\<close>, the later ones moving
  down by one.
\<close>

definition advanceOrRemove ::
  "real \<Rightarrow> real \<Rightarrow> real \<Rightarrow> Particle list \<Rightarrow> nat \<Rightarrow> Particle list" where
  "advanceOrRemove dt fluidVelocity centerY ps i =
    (let p = Particle_update (ps ! i) dt fluidVelocity centerY;
         ps1 = ps[i := p]
     in if isOutOfBounds p centerY \<or> isDead p then take i ps1 @ drop (Suc i) ps1 else ps1)"

text \<open>
  \<^verbatim>\<open>Array.prototype.forEach\<close> reads the length once, before the first call, and visits
  the indices below it in ascending order; an index that the array no longer has when
  its turn comes is passed over.
\<close>

definition forEach :: "('a list \<Rightarrow> nat \<Rightarrow> 'a list) \<Rightarrow> 'a list \<Rightarrow> 'a list" where
  "forEach callback xs =
     fold (\<lambda>i ys. if i < length ys then callback ys i else ys) [0..<length xs] xs"

text \<open>
  \<^verbatim>\<open>updateParticles(dt, speed, flowRate, centerX, centerY)\<close>. \<open>rnd 0\<close> is the draw of the
  spawn test; \<^verbatim>\<open>spawnParticle\<close> gets the draws after it.
\<close>

definition updateParticles ::
  "PhysicsEngine \<Rightarrow> real \<Rightarrow> real \<Rightarrow> real \<Rightarrow> real \<Rightarrow> real \<Rightarrow> (nat \<Rightarrow> real) \<Rightarrow> PhysicsEngine" where
  "updateParticles ph dt speed flowRate centerX centerY rnd =
    (let fluidVelocity = (flowRate / 100) * speed;
         ph1 = ph\<lparr> particles := forEach (advanceOrRemove dt fluidVelocity centerY) (particles ph) \<rparr>
     in if rnd 0 < 0.3 * speed then spawnParticle ph1 centerX centerY (\<lambda>n. rnd (n + 1))
        else ph1)"

subsection \<open>Simulation.updateUI: the financial figures\<close>

text \<open>
  Reading a property of \<^verbatim>\<open>undefined\<close> throws a \<^verbatim>\<open>TypeError\<close>; an array read outside the
  array gives \<^verbatim>\<open>undefined\<close>, here \<open>None\<close>.
\<close>

datatype error = TypeError

definition at_index :: "'a list \<Rightarrow> int \<Rightarrow> 'a option" where
  "at_index xs i = (if 0 \<le> i \<and> i < int (length xs) then Some (xs ! nat i) else None)"

text \<open>
  The block of \<^verbatim>\<open>updateUI\<close> that computes the 30-day figures (lines 327 to 343 of
  \<^verbatim>\<open>src/unnamed/part_000\<close>), as a function of the values \<open>w\<close> that \<^verbatim>\<open>rev30\<close> and \<^verbatim>\<open>pro30\<close>
  have when the block is entered: where no branch assigns them, they keep these.
\<close>

definition window30 ::
  "ChemistryEngine \<Rightarrow> real \<Rightarrow> real \<Rightarrow> real \<times> real \<Rightarrow> error + real \<times> real" where
  "window30 chem netProfit totalDays w =
    (if length (history chem) > 2 then
       (case at_index (history chem) (int (length (history chem)) - 1) of
          None \<Rightarrow> Inl TypeError
        | Some now \<Rightarrow>
            (let targetDay = day now - 30 in
             case (case find (\<lambda>h. day h \<ge> targetDay) (history chem) of
                     Some h \<Rightarrow> Some h
                   | None \<Rightarrow> at_index (history chem) 0) of
               None \<Rightarrow> Inl TypeError
             | Some prev \<Rightarrow>
                 (let windowDays = day now - day prev in
                  if windowDays > 0 then
                    Inr ((revenue now - revenue prev) * (30 / real_of_int windowDays),
                         ((revenue now - cost now + savings now) -
                          (revenue prev - cost prev + savings prev)) *
                         (30 / real_of_int windowDays))
                  else Inr w)))
     else if totalDays > 0.01 then
       Inr ((totalRevenue chem / totalDays) * 30, (netProfit / totalDays) * 30)
     else Inr w)"

text \<open>
  The numbers \<^verbatim>\<open>updateUI\<close> writes to the financial elements of the page, each under the
  id of its element and before its formatting as text. The other elements (masses, pH,
  dosing, time, efficiency) are not modelled.
\<close>

record Display =
  revenueValue :: real
  profitValue :: real
  savingsValue :: real
  roiValue :: real
  revenue30d :: real
  profit30d :: real

text \<open>
  \<^verbatim>\<open>updateUI\<close> of \<^verbatim>\<open>src/unnamed/part_000\<close>. \<^verbatim>\<open>this.chem.totalFixedCost || 0\<close> is 0 where the
  cost is 0 and the cost elsewhere. \<^verbatim>\<open>rev30\<close> and \<^verbatim>\<open>pro30\<close> are declared with the value 0.
\<close>

definition updateUI :: "ChemistryEngine \<Rightarrow> error + Display" where
  "updateUI chem =
    (let totalCost = totalVariableCost chem +
           (if totalFixedCost chem = 0 then 0 else totalFixedCost chem);
         netProfit = (totalRevenue chem - totalCost) + totalSavings chem;
         totalDays = simTimeMs chem / (1000 * 24 * 3600)
     in case window30 chem netProfit totalDays (0, 0) of
          Inl e \<Rightarrow> Inl e
        | Inr (rev30, pro30) \<Rightarrow>
            (let annualProfit = pro30 * 12;
                 roi = (annualProfit / CAPEX) * 100
             in Inr \<lparr> revenueValue = totalRevenue chem, profitValue = netProfit,
                      savingsValue = totalSavings chem, roiValue = roi,
                      revenue30d = rev30, profit30d = pro30 \<rparr>))"

text \<open>
  \<^verbatim>\<open>updateUI\<close> of \<^verbatim>\<open>src/simulation.js\<close>: the return on investment is taken from the
  cumulated net profit, and the 30-day figures are plain differences.
\<close>

definition updateUI_v1 :: "ChemistryEngine \<Rightarrow> error + Display" where
  "updateUI_v1 chem =
    (let monthlyRevenue = totalRevenue chem;
         monthlyVarCost = totalVariableCost chem;
         totalCost = monthlyVarCost +
           (if totalFixedCost chem = 0 then 0 else totalFixedCost chem);
         netProfit = (monthlyRevenue - totalCost) + totalSavings chem;
         roi = (netProfit / CAPEX_v1) * 100
     in if length (history chem) > 1 then
          (case at_index (history chem) (int (length (history chem)) - 1) of
             None \<Rightarrow> Inl TypeError
           | Some now \<Rightarrow>
               (let targetDay = day now - 30 in
                case (case find (\<lambda>h. day h \<ge> targetDay) (history chem) of
                        Some h \<Rightarrow> Some h
                      | None \<Rightarrow> at_index (history chem) 0) of
                  None \<Rightarrow> Inl TypeError
                | Some prev \<Rightarrow>
                    Inr \<lparr> revenueValue = monthlyRevenue, profitValue = netProfit,
                          savingsValue = totalSavings chem, roiValue = roi,
                          revenue30d = revenue now - revenue prev,
                          profit30d = (revenue now - cost now) - (revenue prev - cost prev) \<rparr>))
        else
          Inr \<lparr> revenueValue = monthlyRevenue, profitValue = netProfit,
                savingsValue = totalSavings chem, roiValue = roi,
                revenue30d = monthlyRevenue, profit30d = netProfit \<rparr>)"

section \<open>Theorems\<close>

subsection \<open>The fields after a call\<close>

lemma calculateReaction_totalFInput:
  "totalFInput (fst (calculateReaction c flowRate ppmF dt speed rnd)) =
     totalFInput c + massF (snd (calculateReaction c flowRate ppmF dt speed rnd))"
  by (simp add: calculateReaction_def Let_def)

lemma calculateReaction_totalFluoriteOutput:
  "totalFluoriteOutput (fst (calculateReaction c flowRate ppmF dt speed rnd)) =
     totalFluoriteOutput c + massF (snd (calculateReaction c flowRate ppmF dt speed rnd)) * F_TO_CAF2"
  by (simp add: calculateReaction_def Let_def)

lemma calculateReaction_totalCaCl2Used:
  "totalCaCl2Used (fst (calculateReaction c flowRate ppmF dt speed rnd)) =
     totalCaCl2Used c + massF (snd (calculateReaction c flowRate ppmF dt speed rnd)) * F_TO_CACL2"
  by (simp add: calculateReaction_def Let_def)

lemma calculateReaction_totalRevenue:
  "totalRevenue (fst (calculateReaction c flowRate ppmF dt speed rnd)) =
     totalRevenue c + massF (snd (calculateReaction c flowRate ppmF dt speed rnd)) * F_TO_CAF2 / 1000000 *
       ((purityMix c / 100) * PRICE_ACIDSPAR + (1 - purityMix c / 100) * PRICE_METALSPAR)"
  by (simp add: calculateReaction_def Let_def)

lemma calculateReaction_totalVariableCost:
  "totalVariableCost (fst (calculateReaction c flowRate ppmF dt speed rnd)) =
     totalVariableCost c + massF (snd (calculateReaction c flowRate ppmF dt speed rnd)) * F_TO_CACL2 / 1000000 * COST_CACL2"
  by (simp add: calculateReaction_def Let_def)

lemma calculateReaction_totalSavings:
  "totalSavings (fst (calculateReaction c flowRate ppmF dt speed rnd)) =
     totalSavings c + massF (snd (calculateReaction c flowRate ppmF dt speed rnd)) / 1000000 * AVOIDED_COST_LIME_SLUDGE"
  by (simp add: calculateReaction_def Let_def)

lemma calculateReaction_simTimeMs:
  "simTimeMs (fst (calculateReaction c flowRate ppmF dt speed rnd)) =
     simTimeMs c + (dt / 1000) * speed * (4 * 3600) * 1000"
  by (simp add: calculateReaction_def Let_def)

lemma calculateReaction_totalFixedCost:
  "totalFixedCost (fst (calculateReaction c flowRate ppmF dt speed rnd)) =
     simTimeMs (fst (calculateReaction c flowRate ppmF dt speed rnd)) / (1000 * 24 * 3600) * OPEX_FIXED_DAY"
  by (simp add: calculateReaction_def Let_def)

lemma calculateReaction_purityMix:
  "purityMix (fst (calculateReaction c flowRate ppmF dt speed rnd)) = purityMix c"
  by (simp add: calculateReaction_def Let_def)


lemma calculateReaction_lastSnapshotDay:
  "lastSnapshotDay (fst (calculateReaction c flowRate ppmF dt speed rnd)) =
     max (lastSnapshotDay c) \<lfloor>simTimeMs (fst (calculateReaction c flowRate ppmF dt speed rnd)) / (1000 * 24 * 3600)\<rfloor>"
  by (simp add: calculateReaction_def Let_def max_def)

lemma calculateReaction_history:
  "history (fst (calculateReaction c flowRate ppmF dt speed rnd)) =
    (let c' = fst (calculateReaction c flowRate ppmF dt speed rnd);
         currentDay = \<lfloor>simTimeMs c' / (1000 * 24 * 3600)\<rfloor>;
         pushed = history c @ [\<lparr> day = currentDay, revenue = totalRevenue c', savings = totalSavings c',
                     cost = totalVariableCost c' + totalFixedCost c' \<rparr>]
     in if currentDay > lastSnapshotDay c then (if length pushed > 40 then tl pushed else pushed)
        else history c)"
  by (simp only: calculateReaction_def Let_def fst_conv ChemistryEngine.select_convs)

subsection \<open>The returned masses\<close>

lemma calculateReaction_masses:
  "snd (calculateReaction c flowRate ppmF dt speed rnd) =
     \<lparr> massF = (flowRate * ppmF / 3600) * ((dt / 1000) * speed) * (4 * 3600),
       massFluorite = (flowRate * ppmF / 3600) * ((dt / 1000) * speed) * (4 * 3600) * F_TO_CAF2,
       massCaCl2 = (flowRate * ppmF / 3600) * ((dt / 1000) * speed) * (4 * 3600) * F_TO_CACL2 \<rparr>"
  by (simp add: calculateReaction_def Let_def)

text \<open>
  C2. For flowRate = 450 and ppmF = 50, one call with real delta \<open>dt\<close> (ms) and speed \<open>s\<close>
  returns massF = (450 * 50 / 3600) * ((dt / 1000) * s) * (4 * 3600),
  massFluorite = massF * 78 / 38 and massCaCl2 = massF * 111 / 38, whatever the state of
  the engine and the random draw.
\<close>

theorem calculateReaction_golden:
  "snd (calculateReaction c 450 50 dt s rnd) =
     \<lparr> massF = (450 * 50 / 3600) * ((dt / 1000) * s) * (4 * 3600),
       massFluorite = ((450 * 50 / 3600) * ((dt / 1000) * s) * (4 * 3600)) * 78 / 38,
       massCaCl2 = ((450 * 50 / 3600) * ((dt / 1000) * s) * (4 * 3600)) * 111 / 38 \<rparr>"
  by (simp add: calculateReaction_masses F_TO_CAF2_def F_TO_CACL2_def)

subsection \<open>The stoichiometric invariant\<close>

lemma ChemistryEngine_reset_new: "ChemistryEngine_reset c = ChemistryEngine_new"
  by (simp add: ChemistryEngine_reset_def ChemistryEngine_new_def)

lemma calculateReaction_stoichiometric:
  assumes "stoichiometric c"
  shows "stoichiometric (fst (calculateReaction c flowRate ppmF dt speed rnd))"
  using assms
  by (simp add: stoichiometric_def calculateReaction_totalFInput
      calculateReaction_totalFluoriteOutput calculateReaction_totalCaCl2Used distrib_right)

text \<open>
  C3. totalFluoriteOutput = totalFInput * (78 / 38) and totalCaCl2Used = totalFInput *
  (111 / 38) hold in the state of a new engine, every call of calculateReaction keeps them,
  whatever its arguments, and reset() establishes them. The two ratios are constants of
  the configuration, 78 / 38 and 111 / 38: no operation has them in its state.
\<close>

theorem stoichiometric_invariant:
  "stoichiometric ChemistryEngine_new \<and>
   (\<forall>c flowRate ppmF dt speed rnd.
      stoichiometric c \<longrightarrow> stoichiometric (fst (calculateReaction c flowRate ppmF dt speed rnd))) \<and>
   (\<forall>c. stoichiometric (ChemistryEngine_reset c)) \<and>
   F_TO_CAF2 = 78 / 38 \<and> F_TO_CACL2 = 111 / 38"
proof -
  have new: "stoichiometric ChemistryEngine_new"
    by (simp add: stoichiometric_def ChemistryEngine_new_def)
  then have "\<forall>c. stoichiometric (ChemistryEngine_reset c)"
    by (simp add: ChemistryEngine_reset_new)
  with new show ?thesis
    by (simp add: calculateReaction_stoichiometric F_TO_CAF2_def F_TO_CACL2_def)
qed

theorem stoichiometric_invariant_witness:
  "stoichiometric ChemistryEngine_new \<and>
   stoichiometric (fst (calculateReaction ChemistryEngine_new 450 50 1000 1 0.5)) \<and>
   totalFInput (fst (calculateReaction ChemistryEngine_new 450 50 1000 1 0.5)) = 90000"
proof -
  have "totalFInput (fst (calculateReaction ChemistryEngine_new 450 50 1000 1 0.5)) = 90000"
    by (simp add: calculateReaction_totalFInput calculateReaction_masses ChemistryEngine_new_def)
  with stoichiometric_invariant show ?thesis
    by blast
qed

subsection \<open>The totals never decrease\<close>

lemma run_append: "run c (xs @ ys) = run (run c xs) ys"
  by (induction xs arbitrary: c) simp_all

lemma run_take_Suc:
  assumes "k < length es"
  shows "run c (take (Suc k) es) = handle (run c (take k es)) (es ! k)"
  using assms by (simp add: take_Suc_conv_app_nth run_append)

lemma handle_purityMix_range:
  assumes "0 \<le> purityMix c \<and> purityMix c \<le> 100" "inControlRange e"
  shows "0 \<le> purityMix (handle c e) \<and> purityMix (handle c e) \<le> 100"
  using assms by (cases e) (simp_all add: calculateReaction_purityMix setPurityMix_def)

lemma run_purityMix_range:
  assumes "0 \<le> purityMix c \<and> purityMix c \<le> 100" "\<forall>e \<in> set es. inControlRange e"
  shows "0 \<le> purityMix (run c es) \<and> purityMix (run c es) \<le> 100"
  using assms
proof (induction es arbitrary: c)
  case Nil
  then show ?case by simp
next
  case (Cons e es)
  from Cons.prems have "0 \<le> purityMix (handle c e) \<and> purityMix (handle c e) \<le> 100"
    by (simp add: handle_purityMix_range)
  with Cons show ?case by simp
qed

lemma massF_nonneg:
  assumes "0 < flowRate" "0 \<le> ppmF" "0 \<le> dt" "0 < speed"
  shows "0 \<le> massF (snd (calculateReaction c flowRate ppmF dt speed rnd))"
  using assms by (simp add: calculateReaction_masses)

lemma weightedPrice_nonneg:
  fixes p :: real
  assumes "0 \<le> p" "p \<le> 100"
  shows "0 \<le> (p / 100) * PRICE_ACIDSPAR + (1 - p / 100) * PRICE_METALSPAR"
  using assms by (simp add: PRICE_ACIDSPAR_def PRICE_METALSPAR_def)

lemma calculateReaction_totals_mono:
  fixes c :: ChemistryEngine and flowRate ppmF dt speed rnd :: real
  assumes range: "0 < flowRate" "0 \<le> ppmF" "0 \<le> dt" "0 < speed"
    and purity: "0 \<le> purityMix c" "purityMix c \<le> 100"
  defines "c' \<equiv> fst (calculateReaction c flowRate ppmF dt speed rnd)"
  shows "totalFInput c \<le> totalFInput c'"
    and "totalFluoriteOutput c \<le> totalFluoriteOutput c'"
    and "totalCaCl2Used c \<le> totalCaCl2Used c'"
    and "totalRevenue c \<le> totalRevenue c'"
    and "totalVariableCost c \<le> totalVariableCost c'"
    and "totalSavings c \<le> totalSavings c'"
proof -
  let ?m = "massF (snd (calculateReaction c flowRate ppmF dt speed rnd))"
  have m: "0 \<le> ?m"
    using range by (rule massF_nonneg)
  show "totalFInput c \<le> totalFInput c'"
    using m by (simp add: c'_def calculateReaction_totalFInput)
  show "totalFluoriteOutput c \<le> totalFluoriteOutput c'"
    using m by (simp add: c'_def calculateReaction_totalFluoriteOutput F_TO_CAF2_def)
  show "totalCaCl2Used c \<le> totalCaCl2Used c'"
    using m by (simp add: c'_def calculateReaction_totalCaCl2Used F_TO_CACL2_def)
  have "0 \<le> ?m * F_TO_CAF2 / 1000000"
    using m by (simp add: F_TO_CAF2_def)
  then have "0 \<le> ?m * F_TO_CAF2 / 1000000 *
      ((purityMix c / 100) * PRICE_ACIDSPAR + (1 - purityMix c / 100) * PRICE_METALSPAR)"
    using weightedPrice_nonneg [OF purity] by (rule mult_nonneg_nonneg)
  then show "totalRevenue c \<le> totalRevenue c'"
    by (simp only: c'_def calculateReaction_totalRevenue le_add_same_cancel1)
  show "totalVariableCost c \<le> totalVariableCost c'"
    using m by (simp add: c'_def calculateReaction_totalVariableCost F_TO_CACL2_def COST_CACL2_def)
  show "totalSavings c \<le> totalSavings c'"
    using m by (simp add: c'_def calculateReaction_totalSavings AVOIDED_COST_LIME_SLUDGE_def)
qed

lemma handle_totals_mono:
  assumes "inControlRange e" "0 \<le> purityMix c \<and> purityMix c \<le> 100"
  shows "totalFInput c \<le> totalFInput (handle c e) \<and>
         totalFluoriteOutput c \<le> totalFluoriteOutput (handle c e) \<and>
         totalCaCl2Used c \<le> totalCaCl2Used (handle c e) \<and>
         totalRevenue c \<le> totalRevenue (handle c e) \<and>
         totalVariableCost c \<le> totalVariableCost (handle c e) \<and>
         totalSavings c \<le> totalSavings (handle c e)"
proof (cases e)
  case (Tick flowRate ppmF dt speed rnd)
  with assms show ?thesis
    by (simp add: calculateReaction_totals_mono)
next
  case (SetPurityMix v)
  then show ?thesis
    by (simp add: setPurityMix_def)
qed

text \<open>
  C6. In every sequence of calculateReaction calls with the controls in their declared
  ranges (flowRate \<open>> 0\<close>, concentration \<open>\<ge> 0\<close>, real delta \<open>\<ge> 0\<close>, speed \<open>> 0\<close>, and
  the purity mix, a field of the engine that the calls read, a percentage between 0 and
  100, also when the purity control is moved between two calls), each of totalFInput,
  totalFluoriteOutput, totalCaCl2Used, totalRevenue, totalVariableCost and totalSavings
  after the first \<open>k + 1\<close> events is at least what it was after the first \<open>k\<close>.
\<close>

theorem totals_nondecreasing:
  assumes "0 \<le> purityMix c" and "purityMix c \<le> 100"
    and "\<forall>e \<in> set es. inControlRange e"
    and "k < length es"
  shows "totalFInput (run c (take k es)) \<le> totalFInput (run c (take (Suc k) es)) \<and>
         totalFluoriteOutput (run c (take k es)) \<le> totalFluoriteOutput (run c (take (Suc k) es)) \<and>
         totalCaCl2Used (run c (take k es)) \<le> totalCaCl2Used (run c (take (Suc k) es)) \<and>
         totalRevenue (run c (take k es)) \<le> totalRevenue (run c (take (Suc k) es)) \<and>
         totalVariableCost (run c (take k es)) \<le> totalVariableCost (run c (take (Suc k) es)) \<and>
         totalSavings (run c (take k es)) \<le> totalSavings (run c (take (Suc k) es))"
proof -
  have "\<forall>e \<in> set (take k es). inControlRange e"
    using assms(3) by (meson in_set_takeD)
  with assms(1,2) have purity: "0 \<le> purityMix (run c (take k es)) \<and> purityMix (run c (take k es)) \<le> 100"
    by (simp add: run_purityMix_range)
  have "inControlRange (es ! k)"
    using assms(3,4) by simp
  from handle_totals_mono [OF this purity] show ?thesis
    by (simp only: run_take_Suc [OF assms(4)])
qed


theorem totals_nondecreasing_witness:
  "0 \<le> purityMix ChemistryEngine_new \<and> purityMix ChemistryEngine_new \<le> 100 \<and>
   inControlRange (Tick 450 50 1000 1 0.5) \<and> inControlRange (SetPurityMix 50) \<and>
   (2 :: nat) < length [Tick 450 50 1000 1 0.5, SetPurityMix 50, Tick 450 50 1000 1 0.5] \<and>
   totalFInput (run ChemistryEngine_new [Tick 450 50 1000 1 0.5, SetPurityMix 50]) \<le>
     totalFInput (run ChemistryEngine_new
       [Tick 450 50 1000 1 0.5, SetPurityMix 50, Tick 450 50 1000 1 0.5]) \<and>
   totalRevenue (run ChemistryEngine_new [Tick 450 50 1000 1 0.5, SetPurityMix 50]) \<le>
     totalRevenue (run ChemistryEngine_new
       [Tick 450 50 1000 1 0.5, SetPurityMix 50, Tick 450 50 1000 1 0.5])"
proof -
  let ?es = "[Tick 450 50 1000 1 0.5, SetPurityMix 50, Tick 450 50 1000 1 0.5]"
  have p: "0 \<le> purityMix ChemistryEngine_new" "purityMix ChemistryEngine_new \<le> 100"
    by (simp_all add: ChemistryEngine_new_def)
  have r: "\<forall>e \<in> set ?es. inControlRange e"
    by simp
  have k: "(2 :: nat) < length ?es"
    by simp
  have t: "take 2 ?es = [Tick 450 50 1000 1 0.5, SetPurityMix 50]" "take (Suc 2) ?es = ?es"
    by (simp_all add: numeral_2_eq_2)
  from totals_nondecreasing [OF p r k] p r k show ?thesis
    by (simp only: t) simp
qed

subsection \<open>The history\<close>

lemma calculateReaction_push:
  fixes c :: ChemistryEngine and flowRate ppmF dt speed rnd :: real
  defines "c' \<equiv> fst (calculateReaction c flowRate ppmF dt speed rnd)"
  shows "lastSnapshotDay c' \<noteq> lastSnapshotDay c \<longleftrightarrow>
           lastSnapshotDay c < \<lfloor>simTimeMs c' / (1000 * 24 * 3600)\<rfloor>"
    and "lastSnapshotDay c' \<noteq> lastSnapshotDay c \<Longrightarrow>
           history c' =
             (let pushed = history c @
                    [\<lparr> day = lastSnapshotDay c', revenue = totalRevenue c',
                       savings = totalSavings c',
                       cost = totalVariableCost c' + totalFixedCost c' \<rparr>]
              in if length pushed > 40 then tl pushed else pushed)"
    and "lastSnapshotDay c' = lastSnapshotDay c \<Longrightarrow> history c' = history c"
proof -
  let ?d = "\<lfloor>simTimeMs c' / (1000 * 24 * 3600)\<rfloor>"
  have l: "lastSnapshotDay c' = max (lastSnapshotDay c) ?d"
    unfolding c'_def by (rule calculateReaction_lastSnapshotDay)
  then show iff: "lastSnapshotDay c' \<noteq> lastSnapshotDay c \<longleftrightarrow> lastSnapshotDay c < ?d"
    by linarith
  have h: "history c' =
    (let pushed = history c @ [\<lparr> day = ?d, revenue = totalRevenue c', savings = totalSavings c',
                     cost = totalVariableCost c' + totalFixedCost c' \<rparr>]
     in if ?d > lastSnapshotDay c then (if length pushed > 40 then tl pushed else pushed)
        else history c)"
    unfolding c'_def by (simp only: calculateReaction_history Let_def)
  show "history c' = history c" if "lastSnapshotDay c' = lastSnapshotDay c"
  proof -
    from that iff have "\<not> lastSnapshotDay c < ?d" by simp
    with h show ?thesis by (simp only: Let_def if_False)
  qed
  show "history c' =
             (let pushed = history c @
                    [\<lparr> day = lastSnapshotDay c', revenue = totalRevenue c',
                       savings = totalSavings c',
                       cost = totalVariableCost c' + totalFixedCost c' \<rparr>]
              in if length pushed > 40 then tl pushed else pushed)"
    if "lastSnapshotDay c' \<noteq> lastSnapshotDay c"
  proof -
    from that iff have lt: "lastSnapshotDay c < ?d" by simp
    with l have "lastSnapshotDay c' = ?d" by linarith
    with h lt show ?thesis by (simp only: Let_def if_True)
  qed
qed

text \<open>
  C10. The first call of calculateReaction on a new engine, or after reset(), appends a
  snapshot when the real delta and the speed are not negative, so that the day index is
  at least 0 while lastSnapshotDay is -1: the history is then the one snapshot of the
  totals after the call. When the tick is shorter than one simulated day, the day of the
  snapshot is 0.
\<close>

theorem first_call_appends_snapshot:
  fixes flowRate ppmF dt speed rnd :: real
  assumes "s = ChemistryEngine_new \<or> s = ChemistryEngine_reset c0"
    and "0 \<le> dt" and "0 \<le> speed"
  shows "let c' = fst (calculateReaction s flowRate ppmF dt speed rnd) in
           history c' =
             [\<lparr> day = \<lfloor>simTimeMs c' / (1000 * 24 * 3600)\<rfloor>, revenue = totalRevenue c',
                savings = totalSavings c',
                cost = totalVariableCost c' + totalFixedCost c' \<rparr>] \<and>
           0 \<le> \<lfloor>simTimeMs c' / (1000 * 24 * 3600)\<rfloor> \<and>
           ((dt / 1000) * speed * (4 * 3600) * 1000 < 1000 * 24 * 3600 \<longrightarrow>
              map day (history c') = [0])"
proof -
  define c' where "c' = fst (calculateReaction s flowRate ppmF dt speed rnd)"
  let ?d = "\<lfloor>simTimeMs c' / (1000 * 24 * 3600)\<rfloor>"
  from assms(1) have s: "s = ChemistryEngine_new"
    by (auto simp: ChemistryEngine_reset_new)
  have t: "simTimeMs c' = (dt / 1000) * speed * (4 * 3600) * 1000"
    by (simp add: c'_def s calculateReaction_simTimeMs ChemistryEngine_new_def)
  have "0 \<le> dt * speed"
    using assms(2,3) by simp
  then have "0 \<le> simTimeMs c' / (1000 * 24 * 3600)"
    by (simp add: t)
  then have d: "0 \<le> ?d"
    by simp
  have "lastSnapshotDay s = -1" "history s = []"
    by (simp_all add: s ChemistryEngine_new_def)
  moreover have "lastSnapshotDay s < ?d"
    using d \<open>lastSnapshotDay s = -1\<close> by linarith
  ultimately have h: "history c' =
      [\<lparr> day = ?d, revenue = totalRevenue c', savings = totalSavings c',
         cost = totalVariableCost c' + totalFixedCost c' \<rparr>]"
    unfolding c'_def by (simp add: calculateReaction_history Let_def)
  have "?d = 0" if "(dt / 1000) * speed * (4 * 3600) * 1000 < 1000 * 24 * 3600"
  proof -
    from that have "simTimeMs c' / (1000 * 24 * 3600) < 1"
      by (simp add: t)
    with d show ?thesis
      by linarith
  qed
  with h d show ?thesis
    unfolding c'_def [symmetric] Let_def by simp
qed

theorem first_call_appends_snapshot_witness:
  "(0 :: real) \<le> 1000 \<and> (0 :: real) \<le> 1 \<and>
   ((1000 :: real) / 1000) * 1 * (4 * 3600) * 1000 < 1000 * 24 * 3600 \<and>
   map day (history (fst (calculateReaction ChemistryEngine_new 450 50 1000 1 0.5))) = [0]"
proof -
  have a: "ChemistryEngine_new = ChemistryEngine_new \<or> ChemistryEngine_new = ChemistryEngine_reset c0"
    for c0 by simp
  have b: "(0 :: real) \<le> 1000" "(0 :: real) \<le> 1"
    by simp_all
  have c: "((1000 :: real) / 1000) * 1 * (4 * 3600) * 1000 < 1000 * 24 * 3600"
    by simp
  from first_call_appends_snapshot [OF a b, where flowRate = 450 and ppmF = 50 and rnd = "0.5"] c b show ?thesis
    unfolding Let_def by blast
qed

lemma calculateReaction_lastSnapshotDay_mono:
  "lastSnapshotDay c \<le> lastSnapshotDay (fst (calculateReaction c flowRate ppmF dt speed rnd))"
  by (simp add: calculateReaction_lastSnapshotDay)

lemma handle_lastSnapshotDay_mono: "lastSnapshotDay c \<le> lastSnapshotDay (handle c e)"
  by (cases e) (simp_all add: calculateReaction_lastSnapshotDay_mono setPurityMix_def)

lemma sorted_wrt_tl: "sorted_wrt P xs \<Longrightarrow> sorted_wrt P (tl xs)"
  by (cases xs) simp_all

lemma calculateReaction_historyOrdered:
  assumes "historyOrdered c"
  shows "historyOrdered (fst (calculateReaction c flowRate ppmF dt speed rnd))"
proof -
  define c' where "c' = fst (calculateReaction c flowRate ppmF dt speed rnd)"
  from assms have len: "length (history c) \<le> 40"
    and sorted: "sorted_wrt (<) (map day (history c))"
    and below: "\<forall>h \<in> set (history c). day h \<le> lastSnapshotDay c"
    by (simp_all add: historyOrdered_def)
  have mono: "lastSnapshotDay c \<le> lastSnapshotDay c'"
    unfolding c'_def by (rule calculateReaction_lastSnapshotDay_mono)
  show ?thesis
  proof (cases "lastSnapshotDay c' = lastSnapshotDay c")
    case True
    then have "history c' = history c"
      unfolding c'_def by (rule calculateReaction_push(3))
    with True assms show ?thesis
      by (simp add: historyOrdered_def c'_def)
  next
    case False
    with mono have lt: "lastSnapshotDay c < lastSnapshotDay c'"
      by simp
    define snap where "snap = \<lparr> day = lastSnapshotDay c', revenue = totalRevenue c',
        savings = totalSavings c', cost = totalVariableCost c' + totalFixedCost c' \<rparr>"
    define pushed where "pushed = history c @ [snap]"
    have h: "history c' = (if length pushed > 40 then tl pushed else pushed)"
      using calculateReaction_push(2) [of c flowRate ppmF dt speed rnd] False
      unfolding c'_def [symmetric] pushed_def snap_def Let_def by simp
    have "sorted_wrt (<) (map day pushed)"
      using sorted below lt by (auto simp: pushed_def snap_def sorted_wrt_append)
    then have 1: "sorted_wrt (<) (map day (history c'))"
      by (simp add: h sorted_wrt_tl map_tl)
    have "\<forall>x \<in> set pushed. day x \<le> lastSnapshotDay c'"
      using below lt by (auto simp: pushed_def snap_def)
    moreover have "set (history c') \<subseteq> set pushed"
      by (cases pushed) (auto simp: h)
    ultimately have 2: "\<forall>x \<in> set (history c'). day x \<le> lastSnapshotDay c'"
      by blast
    have "length pushed = Suc (length (history c))"
      by (simp add: pushed_def)
    with len have 3: "length (history c') \<le> 40"
      by (simp add: h)
    from 1 2 3 show ?thesis
      by (simp add: historyOrdered_def c'_def)
  qed
qed

lemma handle_historyOrdered:
  assumes "historyOrdered c"
  shows "historyOrdered (handle c e)"
proof (cases e)
  case (Tick flowRate ppmF dt speed rnd)
  with assms show ?thesis
    by (simp add: calculateReaction_historyOrdered)
next
  case (SetPurityMix v)
  with assms show ?thesis
    by (simp add: setPurityMix_def historyOrdered_def)
qed

lemma run_historyOrdered: "historyOrdered c \<Longrightarrow> historyOrdered (run c es)"
  by (induction es arbitrary: c) (simp_all add: handle_historyOrdered)

lemma historyOrdered_new: "historyOrdered ChemistryEngine_new"
  by (simp add: historyOrdered_def ChemistryEngine_new_def)

lemma appendedDays_increasing:
  "sorted_wrt (<) (appendedDays c es) \<and> (\<forall>d \<in> set (appendedDays c es). lastSnapshotDay c < d)"
proof (induction es arbitrary: c)
  case Nil
  show ?case by simp
next
  case (Cons e es)
  let ?c' = "handle c e"
  have mono: "lastSnapshotDay c \<le> lastSnapshotDay ?c'"
    by (rule handle_lastSnapshotDay_mono)
  from Cons.IH [of ?c'] have tail: "sorted_wrt (<) (appendedDays ?c' es)"
    and above: "\<forall>d \<in> set (appendedDays ?c' es). lastSnapshotDay ?c' < d"
    by simp_all
  show ?case
  proof (cases "lastSnapshotDay ?c' = lastSnapshotDay c")
    case True
    with tail above show ?thesis by simp
  next
    case False
    with mono have "lastSnapshotDay c < lastSnapshotDay ?c'" by simp
    with tail above False show ?thesis by fastforce
  qed
qed

text \<open>
  C5. After any sequence of calculateReaction calls on a new engine or after reset(),
  whatever their arguments (and wherever the purity control is moved between them), the
  history has at most 40 entries, the days of its entries are strictly increasing, and
  the days of the snapshots appended along the sequence are strictly increasing too, so
  that no day is appended twice.
\<close>

theorem history_bounded_increasing:
  assumes "s = ChemistryEngine_new \<or> s = ChemistryEngine_reset c0"
  shows "length (history (run s es)) \<le> 40 \<and>
         sorted_wrt (<) (map day (history (run s es))) \<and>
         sorted_wrt (<) (appendedDays s es) \<and>
         distinct (appendedDays s es)"
proof -
  from assms have "s = ChemistryEngine_new"
    by (auto simp: ChemistryEngine_reset_new)
  then have "historyOrdered (run s es)"
    by (simp add: run_historyOrdered historyOrdered_new)
  moreover have inc: "sorted_wrt (<) (appendedDays s es)"
    by (simp add: appendedDays_increasing)
  moreover from inc have "distinct (appendedDays s es)"
    by (simp add: strict_sorted_iff)
  ultimately show ?thesis
    by (simp add: historyOrdered_def)
qed

theorem history_bounded_increasing_witness:
  "appendedDays (ChemistryEngine_reset ChemistryEngine_new)
     [Tick 450 50 1000 1 0.5, Tick 450 50 1000 1 0.5, Tick 450 50 6000 1 0.5,
      Tick 450 50 6000 2 0.5] = [0, 1, 3] \<and>
   length (history (run (ChemistryEngine_reset ChemistryEngine_new)
     [Tick 450 50 1000 1 0.5, Tick 450 50 1000 1 0.5, Tick 450 50 6000 1 0.5,
      Tick 450 50 6000 2 0.5])) \<le> 40 \<and>
   sorted_wrt (<) (map day (history (run (ChemistryEngine_reset ChemistryEngine_new)
     [Tick 450 50 1000 1 0.5, Tick 450 50 1000 1 0.5, Tick 450 50 6000 1 0.5,
      Tick 450 50 6000 2 0.5]))) \<and>
   distinct (appendedDays (ChemistryEngine_reset ChemistryEngine_new)
     [Tick 450 50 1000 1 0.5, Tick 450 50 1000 1 0.5, Tick 450 50 6000 1 0.5,
      Tick 450 50 6000 2 0.5])"
proof -
  let ?es = "[Tick 450 50 1000 1 0.5, Tick 450 50 1000 1 0.5, Tick 450 50 6000 1 0.5,
      Tick 450 50 6000 2 0.5]"
  have start: "ChemistryEngine_reset ChemistryEngine_new = ChemistryEngine_new \<or>
      ChemistryEngine_reset ChemistryEngine_new = ChemistryEngine_reset ChemistryEngine_new"
    by simp
  have "appendedDays (ChemistryEngine_reset ChemistryEngine_new) ?es = [0, 1, 3]"
    by (simp add: calculateReaction_lastSnapshotDay calculateReaction_simTimeMs
        ChemistryEngine_reset_def ChemistryEngine_new_def)
  with history_bounded_increasing [OF start, of ?es] show ?thesis
    by simp
qed

subsection \<open>The relaxation of the pH\<close>







subsection \<open>The crystal: rising, then sedimenting\<close>

lemma Particle_update_size_mono: "size_p p \<le> size_p (Particle_update p dt fluidVelocity centerY)"
  by (simp add: Particle_update_def Let_def)

lemma Particle_update_sedimenting_kept:
  "sedimenting p \<Longrightarrow> sedimenting (Particle_update p dt fluidVelocity centerY)"
  by (simp add: Particle_update_def Let_def)

lemma Particle_update_type: "type_p (Particle_update p dt fluidVelocity centerY) = type_p p"
  by (simp add: Particle_update_def Let_def)

lemma Particle_update_heavy:
  assumes "type_p p = Crystal" and "6 \<le> size_p (Particle_update p dt fluidVelocity centerY)"
  shows "sedimenting (Particle_update p dt fluidVelocity centerY)"
  using assms by (simp add: Particle_update_def Let_def split: if_splits)

lemma Particle_update_settled:
  assumes "type_p p = Crystal" and "6 \<le> size_p p \<or> sedimenting p"
  shows "Particle_update p dt fluidVelocity centerY =
     p\<lparr> sedimenting := True,
        vy := max (vy p + 0.05 * size_p p * 1.5) 1.5,
        x_p := x_p p + vx p,
        y_p := y_p p + max (vy p + 0.05 * size_p p * 1.5) 1.5 \<rparr>"
  using assms by (auto simp: Particle_update_def Let_def max_def)

lemma updates_append: "updates p (us @ vs) = updates (updates p us) vs"
  by (induction us arbitrary: p) auto

lemma updates_settled:
  assumes "type_p p = Crystal" and "6 \<le> size_p p \<or> sedimenting p"
  shows "type_p (updates p us) = Crystal \<and> size_p (updates p us) = size_p p \<and>
         (6 \<le> size_p p \<or> sedimenting (updates p us))"
  using assms
proof (induction us arbitrary: p)
  case Nil
  then show ?case by simp
next
  case (Cons u us)
  obtain dt fluidVelocity centerY where u: "u = (dt, fluidVelocity, centerY)"
    by (cases u)
  let ?p' = "Particle_update p dt fluidVelocity centerY"
  from Cons.prems have "type_p ?p' = Crystal" "size_p ?p' = size_p p" "sedimenting ?p'"
    by (simp_all add: Particle_update_settled)
  with Cons.IH [of ?p'] show ?case
    by (simp add: u)
qed

text \<open>
  C8. Take a crystal whose size has reached 6 or whose sedimenting flag is set, and any
  sequence of further updates, whatever the fluid velocity and the bed centre of each.
  Every one of these updates is a sedimenting step: it leaves the flag set and the size
  as it is, adds the gravity term alone to \<open>vy\<close> and floors it at 1.5, and moves the
  particle by its velocities. In general no update clears the flag or makes the size
  smaller, and an update of a crystal that ends with a size of at least 6 ends with the
  flag set.
\<close>

theorem crystal_sedimenting_one_way:
  assumes "type_p p = Crystal" and "6 \<le> size_p p \<or> sedimenting p" and "k < length us"
  shows "(let q = updates p (take k us); q' = updates p (take (Suc k) us) in
            type_p q' = Crystal \<and> sedimenting q' \<and> size_p q' = size_p p \<and>
            vy q' = max (vy q + 0.05 * size_p q * 1.5) 1.5 \<and> 1.5 \<le> vy q' \<and>
            x_p q' = x_p q + vx q \<and> y_p q' = y_p q + vy q') \<and>
         (\<forall>r dt fluidVelocity centerY.
            size_p r \<le> size_p (Particle_update r dt fluidVelocity centerY) \<and>
            (sedimenting r \<longrightarrow> sedimenting (Particle_update r dt fluidVelocity centerY)) \<and>
            (type_p r = Crystal \<and> 6 \<le> size_p (Particle_update r dt fluidVelocity centerY) \<longrightarrow>
               sedimenting (Particle_update r dt fluidVelocity centerY)))"
proof -
  define q where "q = updates p (take k us)"
  define q' where "q' = updates p (take (Suc k) us)"
  obtain dt fluidVelocity centerY where u: "us ! k = (dt, fluidVelocity, centerY)"
    by (cases "us ! k")
  from assms(3) have "take (Suc k) us = take k us @ [us ! k]"
    by (rule take_Suc_conv_app_nth)
  then have step: "q' = Particle_update q dt fluidVelocity centerY"
    by (simp add: q'_def q_def updates_append u)
  from updates_settled [OF assms(1,2), of "take k us"]
  have q: "type_p q = Crystal" "size_p q = size_p p" "6 \<le> size_p q \<or> sedimenting q"
    by (auto simp: q_def)
  have "q' = q\<lparr> sedimenting := True,
        vy := max (vy q + 0.05 * size_p q * 1.5) 1.5,
        x_p := x_p q + vx q,
        y_p := y_p q + max (vy q + 0.05 * size_p q * 1.5) 1.5 \<rparr>"
    unfolding step using q(1,3) by (rule Particle_update_settled)
  then have "type_p q' = Crystal \<and> sedimenting q' \<and> size_p q' = size_p p \<and>
            vy q' = max (vy q + 0.05 * size_p q * 1.5) 1.5 \<and> 1.5 \<le> vy q' \<and>
            x_p q' = x_p q + vx q \<and> y_p q' = y_p q + vy q'"
    using q(1,2) by simp
  then show ?thesis
    unfolding q_def [symmetric] q'_def [symmetric] Let_def
    using Particle_update_size_mono Particle_update_sedimenting_kept Particle_update_heavy
    by blast
qed

theorem crystal_sedimenting_one_way_witness:
  "type_p \<lparr> x_p = 400, y_p = 300, size_p = 6, type_p = Crystal, vx = 0.2, vy = -1, alpha = 1,
            color = ''#00f2ff'', sedimenting = False \<rparr> = Crystal \<and>
   (6 :: real) \<le> size_p \<lparr> x_p = 400, y_p = 300, size_p = 6, type_p = Crystal, vx = 0.2, vy = -1,
            alpha = 1, color = ''#00f2ff'', sedimenting = False \<rparr> \<and>
   (1 :: nat) < length [(16 :: real, 4.5 :: real, 300 :: real), (16, 4.5, 300)] \<and>
   sedimenting (updates \<lparr> x_p = 400, y_p = 300, size_p = 6, type_p = Crystal, vx = 0.2, vy = -1,
            alpha = 1, color = ''#00f2ff'', sedimenting = False \<rparr>
            [(16, 4.5, 300), (16, 4.5, 300)]) \<and>
   vy (updates \<lparr> x_p = 400, y_p = 300, size_p = 6, type_p = Crystal, vx = 0.2, vy = -1,
            alpha = 1, color = ''#00f2ff'', sedimenting = False \<rparr>
            [(16, 4.5, 300), (16, 4.5, 300)]) = 1.95"
proof -
  define p where "p = \<lparr> x_p = 400, y_p = 300, size_p = 6, type_p = Crystal, vx = 0.2, vy = -1,
      alpha = 1, color = ''#00f2ff'', sedimenting = False \<rparr>"
  define us where "us = [(16 :: real, 4.5 :: real, 300 :: real), (16, 4.5, 300)]"
  have h: "type_p p = Crystal" "6 \<le> size_p p \<or> sedimenting p" "1 < length us"
    by (simp_all add: p_def us_def)
  have t: "take (Suc 1) us = us" "take 1 us = [(16, 4.5, 300)]"
    by (simp_all add: us_def)
  have first: "vy (Particle_update p 16 4.5 300) = 1.5" "size_p (Particle_update p 16 4.5 300) = 6"
    by (simp_all add: Particle_update_settled [OF h(1,2)]) (simp_all add: p_def)
  from crystal_sedimenting_one_way [OF h]
  have "sedimenting (updates p us) \<and>
      vy (updates p us) = max (vy (updates p [(16, 4.5, 300)]) +
        0.05 * size_p (updates p [(16, 4.5, 300)]) * 1.5) 1.5"
    unfolding Let_def t by blast
  then have "sedimenting (updates p us) \<and>
      vy (updates p us) = max (1.5 + 0.05 * 6 * 1.5) 1.5"
    by (simp only: updates.simps first)
  then have "sedimenting (updates p us) \<and> vy (updates p us) = 1.95"
    by simp
  with h show ?thesis
    unfolding p_def us_def by simp
qed

subsection \<open>The 30-day window and the return on investment\<close>

lemma at_index_last:
  "xs \<noteq> [] \<Longrightarrow> at_index xs (int (length xs) - 1) = Some (last xs)"
  by (simp add: at_index_def last_conv_nth nat_diff_distrib')

lemma at_index_0: "xs \<noteq> [] \<Longrightarrow> at_index xs 0 = Some (hd xs)"
  by (simp add: at_index_def hd_conv_nth)

lemma reference_snapshot:
  assumes "xs \<noteq> []"
  shows "(case find P xs of Some h \<Rightarrow> Some h | None \<Rightarrow> at_index xs 0) =
         Some (case find P xs of Some h \<Rightarrow> h | None \<Rightarrow> hd xs)"
  using assms by (simp add: at_index_0 split: option.split)

lemma window30_long:
  assumes "2 < length (history chem)"
  shows "window30 chem netProfit totalDays w =
    (let now = last (history chem);
         prev = (case find (\<lambda>h. day h \<ge> day now - 30) (history chem) of
                   Some h \<Rightarrow> h | None \<Rightarrow> hd (history chem));
         windowDays = day now - day prev
     in if windowDays > 0 then
          Inr ((revenue now - revenue prev) * (30 / real_of_int windowDays),
               ((revenue now - cost now + savings now) -
                (revenue prev - cost prev + savings prev)) * (30 / real_of_int windowDays))
        else Inr w)"
proof -
  from assms have ne: "history chem \<noteq> []"
    by auto
  show ?thesis
    unfolding window30_def Let_def
    by (simp only: assms if_True at_index_last [OF ne] reference_snapshot [OF ne] option.case)
qed

lemma window30_short:
  assumes "length (history chem) \<le> 2"
  shows "window30 chem netProfit totalDays w =
    (if totalDays > 0.01 then Inr ((totalRevenue chem / totalDays) * 30, (netProfit / totalDays) * 30)
     else Inr w)"
  using assms by (simp add: window30_def)

lemma window30_returns: "\<exists>w'. window30 chem netProfit totalDays w = Inr w'"
proof (cases "2 < length (history chem)")
  case True
  then show ?thesis
    by (simp add: window30_long Let_def)
next
  case False
  then show ?thesis
    by (simp add: window30_short)
qed

lemma updateUI_returns:
  "\<exists>d. updateUI chem = Inr d \<and>
       window30 chem (profitValue d) (simTimeMs chem / (1000 * 24 * 3600)) (0, 0) =
         Inr (revenue30d d, profit30d d) \<and>
       profitValue d = (totalRevenue chem - (totalVariableCost chem + totalFixedCost chem)) +
         totalSavings chem \<and>
       roiValue d = (profit30d d * 12 / CAPEX) * 100"
proof -
  define netProfit where "netProfit =
    (totalRevenue chem - (totalVariableCost chem + totalFixedCost chem)) + totalSavings chem"
  obtain rev30 pro30 where
    w: "window30 chem netProfit (simTimeMs chem / (1000 * 24 * 3600)) (0, 0) = Inr (rev30, pro30)"
    using window30_returns [of chem netProfit "simTimeMs chem / (1000 * 24 * 3600)" "(0, 0)"]
    by auto
  have "updateUI chem = Inr \<lparr> revenueValue = totalRevenue chem, profitValue = netProfit,
      savingsValue = totalSavings chem, roiValue = (pro30 * 12 / CAPEX) * 100,
      revenue30d = rev30, profit30d = pro30 \<rparr>"
    using w by (simp add: updateUI_def netProfit_def)
  with w show ?thesis
    by (simp add: netProfit_def)
qed

lemma updateUI_v1_returns:
  "\<exists>d. updateUI_v1 chem = Inr d \<and>
       profitValue d = (totalRevenue chem - (totalVariableCost chem + totalFixedCost chem)) +
         totalSavings chem \<and>
       roiValue d = (profitValue d / CAPEX_v1) * 100"
proof (cases "1 < length (history chem)")
  case True
  then have ne: "history chem \<noteq> []"
    by auto
  show ?thesis
    unfolding updateUI_v1_def Let_def
    by (simp only: True if_True at_index_last [OF ne] reference_snapshot [OF ne] option.case)
      simp
next
  case False
  then show ?thesis
    by (simp add: updateUI_v1_def Let_def)
qed

text \<open>
  C1, as amended. The reported return on investment is the 30-day profit times 12, the
  months of a year, over CAPEX, times 100, with CAPEX = 15000000, in every state of the
  engine (\<^verbatim>\<open>src/unnamed/part_000\<close>). The earlier \<^verbatim>\<open>src/simulation.js\<close> reports the cumulated
  net profit over its CAPEX of 1000000, times 100, with no annualising.
\<close>

theorem roi_is_twelve_windows:
  "(\<exists>d. updateUI chem = Inr d \<and> roiValue d = (profit30d d * 12 / CAPEX) * 100) \<and>
   CAPEX = 15000000 \<and>
   (\<exists>d. updateUI_v1 chem = Inr d \<and> roiValue d = (profitValue d / CAPEX_v1) * 100) \<and>
   CAPEX_v1 = 1000000"
  using updateUI_returns [of chem] updateUI_v1_returns [of chem]
  by (auto simp: CAPEX_def CAPEX_v1_def)

text \<open>
  C1 as stated fails on the state after one call with flowRate 380, 100 mg/L, one second
  and speed 1: the 30-day profit is 134586 and the reported return 10.76688, where
  the factor 365 / 30 gives 134586 * (365 / 30) / 15000000 * 100 = 10.91642.
\<close>

theorem roi_365_counterexample:
  "updateUI (fst (calculateReaction ChemistryEngine_new 380 100 1000 1 0.5)) =
     Inr \<lparr> revenueValue = 936, profitValue = 747.7, savingsValue = 1100.1,
           roiValue = 10.76688, revenue30d = 168480, profit30d = 134586 \<rparr> \<and>
   (134586 * (365 / 30)) / CAPEX * 100 = 10.91642 \<and>
   (10.76688 :: real) \<noteq> 10.91642"
proof -
  define c where "c = fst (calculateReaction ChemistryEngine_new 380 100 1000 1 0.5)"
  have f: "totalRevenue c = 936" "totalVariableCost c = 488.4" "totalSavings c = 1100.1"
    "simTimeMs c = 14400000" "totalFixedCost c = 800" "length (history c) = 1"
    unfolding c_def
    by (simp_all add: calculateReaction_totalRevenue calculateReaction_totalVariableCost
        calculateReaction_totalSavings calculateReaction_simTimeMs calculateReaction_totalFixedCost
        calculateReaction_history calculateReaction_masses ChemistryEngine_new_def Let_def
        F_TO_CAF2_def F_TO_CACL2_def PRICE_ACIDSPAR_def PRICE_METALSPAR_def COST_CACL2_def
        AVOIDED_COST_LIME_SLUDGE_def OPEX_FIXED_DAY_def)
  have "updateUI c =
     Inr \<lparr> revenueValue = 936, profitValue = 747.7, savingsValue = 1100.1,
           roiValue = 10.76688, revenue30d = 168480, profit30d = 134586 \<rparr>"
    by (simp add: updateUI_def window30_short f CAPEX_def)
  then show ?thesis
    unfolding c_def by (simp add: CAPEX_def)
qed

text \<open>
  C7, as amended. \<^verbatim>\<open>updateUI\<close> returns for every state of the engine: no read of the
  rolling-window computation fails. With at least 3 snapshots, \<open>now\<close> the latest and \<open>prev\<close>
  the first one within 30 days of it, a span \<open>day now - day prev > 0\<close> gives the two
  differences times 30 / span; a span of zero divides nothing and assigns nothing, and
  the two figures shown are 0, the value \<^verbatim>\<open>rev30\<close> and \<^verbatim>\<open>pro30\<close> are declared with on every
  call: the figures of the call before are not kept. With fewer than 3 snapshots and more
  than 0.01 simulated days, the figures are the cumulated revenue and net profit over the
  simulated days, times 30; with fewer than 3 snapshots and at most 0.01 simulated days
  they are 0.
\<close>

theorem updateUI_window_figures:
  "\<exists>d. updateUI chem = Inr d \<and>
     profitValue d =
       (totalRevenue chem - (totalVariableCost chem + totalFixedCost chem)) + totalSavings chem \<and>
     (2 < length (history chem) \<longrightarrow>
        (let now = last (history chem);
             prev = (case find (\<lambda>h. day h \<ge> day now - 30) (history chem) of
                       Some h \<Rightarrow> h | None \<Rightarrow> hd (history chem));
             windowDays = day now - day prev
         in (0 < windowDays \<longrightarrow>
               revenue30d d = (revenue now - revenue prev) * (30 / real_of_int windowDays) \<and>
               profit30d d =
                 ((revenue now - cost now + savings now) -
                  (revenue prev - cost prev + savings prev)) * (30 / real_of_int windowDays)) \<and>
            (windowDays \<le> 0 \<longrightarrow> revenue30d d = 0 \<and> profit30d d = 0))) \<and>
     (length (history chem) \<le> 2 \<and> 0.01 < simTimeMs chem / (1000 * 24 * 3600) \<longrightarrow>
        revenue30d d = (totalRevenue chem / (simTimeMs chem / (1000 * 24 * 3600))) * 30 \<and>
        profit30d d = (profitValue d / (simTimeMs chem / (1000 * 24 * 3600))) * 30) \<and>
     (length (history chem) \<le> 2 \<and> simTimeMs chem / (1000 * 24 * 3600) \<le> 0.01 \<longrightarrow>
        revenue30d d = 0 \<and> profit30d d = 0)"
proof -
  let ?totalDays = "simTimeMs chem / (1000 * 24 * 3600)"
  from updateUI_returns [of chem] obtain d where d: "updateUI chem = Inr d"
    and w: "window30 chem (profitValue d) ?totalDays (0, 0) = Inr (revenue30d d, profit30d d)"
    and p: "profitValue d =
      (totalRevenue chem - (totalVariableCost chem + totalFixedCost chem)) + totalSavings chem"
    by blast
  have long: "2 < length (history chem) \<longrightarrow>
        (let now = last (history chem);
             prev = (case find (\<lambda>h. day h \<ge> day now - 30) (history chem) of
                       Some h \<Rightarrow> h | None \<Rightarrow> hd (history chem));
             windowDays = day now - day prev
         in (0 < windowDays \<longrightarrow>
               revenue30d d = (revenue now - revenue prev) * (30 / real_of_int windowDays) \<and>
               profit30d d =
                 ((revenue now - cost now + savings now) -
                  (revenue prev - cost prev + savings prev)) * (30 / real_of_int windowDays)) \<and>
            (windowDays \<le> 0 \<longrightarrow> revenue30d d = 0 \<and> profit30d d = 0))"
  proof
    assume "2 < length (history chem)"
    from w [unfolded window30_long [OF this]] show
       "let now = last (history chem);
             prev = (case find (\<lambda>h. day h \<ge> day now - 30) (history chem) of
                       Some h \<Rightarrow> h | None \<Rightarrow> hd (history chem));
             windowDays = day now - day prev
         in (0 < windowDays \<longrightarrow>
               revenue30d d = (revenue now - revenue prev) * (30 / real_of_int windowDays) \<and>
               profit30d d =
                 ((revenue now - cost now + savings now) -
                  (revenue prev - cost prev + savings prev)) * (30 / real_of_int windowDays)) \<and>
            (windowDays \<le> 0 \<longrightarrow> revenue30d d = 0 \<and> profit30d d = 0)"
      unfolding Let_def by (auto split: if_splits)
  qed
  have short1: "length (history chem) \<le> 2 \<and> 0.01 < ?totalDays \<longrightarrow>
        revenue30d d = (totalRevenue chem / ?totalDays) * 30 \<and>
        profit30d d = (profitValue d / ?totalDays) * 30"
  proof
    assume a: "length (history chem) \<le> 2 \<and> 0.01 < ?totalDays"
    then have "length (history chem) \<le> 2" "0.01 < ?totalDays"
      by blast+
    from w [unfolded window30_short [OF this(1)]] this(2)
    show "revenue30d d = (totalRevenue chem / ?totalDays) * 30 \<and>
        profit30d d = (profitValue d / ?totalDays) * 30"
      by (simp only: if_True sum.inject prod.inject)
  qed
  have short0: "length (history chem) \<le> 2 \<and> ?totalDays \<le> 0.01 \<longrightarrow>
        revenue30d d = 0 \<and> profit30d d = 0"
  proof
    assume a: "length (history chem) \<le> 2 \<and> ?totalDays \<le> 0.01"
    then have "length (history chem) \<le> 2" "\<not> 0.01 < ?totalDays"
      by (simp_all add: not_less)
    from w [unfolded window30_short [OF this(1)]] this(2)
    show "revenue30d d = 0 \<and> profit30d d = 0"
      by (simp only: if_False sum.inject prod.inject)
  qed
  from d p long short1 short0 show ?thesis
    by blast
qed

lemma three_daily_jumps:
  fixes c :: ChemistryEngine
  defines "c \<equiv> run ChemistryEngine_new
      [Tick 380 100 1000 1 0.5, Tick 380 100 300000 1 0.5, Tick 380 100 300000 1 0.5]"
  shows "map day (history c) = [0, 50, 100]"
  unfolding c_def
  by (simp add: calculateReaction_history calculateReaction_lastSnapshotDay
      calculateReaction_simTimeMs Let_def ChemistryEngine_new_def)

theorem updateUI_window_figures_witness:
  "2 < length (history (run ChemistryEngine_new
         [Tick 380 100 1000 1 0.5, Tick 380 100 300000 1 0.5, Tick 380 100 300000 1 0.5])) \<and>
   map day (history (run ChemistryEngine_new
         [Tick 380 100 1000 1 0.5, Tick 380 100 300000 1 0.5, Tick 380 100 300000 1 0.5])) =
     [0, 50, 100] \<and>
   (\<exists>d. updateUI (run ChemistryEngine_new
         [Tick 380 100 1000 1 0.5, Tick 380 100 300000 1 0.5, Tick 380 100 300000 1 0.5]) =
         Inr d \<and> revenue30d d = 0 \<and> profit30d d = 0)"
proof -
  define c where "c = run ChemistryEngine_new
         [Tick 380 100 1000 1 0.5, Tick 380 100 300000 1 0.5, Tick 380 100 300000 1 0.5]"
  have d: "map day (history c) = [0, 50, 100]"
    unfolding c_def by (rule three_daily_jumps)
  then obtain s0 s1 s2 where h: "history c = [s0, s1, s2]"
    and days: "day s0 = 0" "day s1 = 50" "day s2 = 100"
    by (auto simp: map_eq_Cons_conv)
  from updateUI_window_figures [of c] obtain r where r: "updateUI c = Inr r"
    and long: "2 < length (history c) \<longrightarrow>
        (let now = last (history c);
             prev = (case find (\<lambda>h. day h \<ge> day now - 30) (history c) of
                       Some h \<Rightarrow> h | None \<Rightarrow> hd (history c));
             windowDays = day now - day prev
         in (0 < windowDays \<longrightarrow>
               revenue30d r = (revenue now - revenue prev) * (30 / real_of_int windowDays) \<and>
               profit30d r =
                 ((revenue now - cost now + savings now) -
                  (revenue prev - cost prev + savings prev)) * (30 / real_of_int windowDays)) \<and>
            (windowDays \<le> 0 \<longrightarrow> revenue30d r = 0 \<and> profit30d r = 0))"
    by blast
  from long have "revenue30d r = 0 \<and> profit30d r = 0"
    by (simp add: h days Let_def)
  with r d h show ?thesis
    unfolding c_def by auto
qed

text \<open>
  C7 as stated fails where the span is zero after a call that showed figures. After a
  call of one second and one of five minutes (flowRate 380, 100 mg/L, speed 1) the
  snapshots are of days 0 and 50 and the page shows 168480 and 134586. The next call of
  five minutes appends day 100; no snapshot but the latest is within 30 days of it, the
  span is 0, and the page shows 0 and 0, and a return of 0: the prior figures are not
  kept.
\<close>

theorem window_prior_values_counterexample:
  "updateUI (run ChemistryEngine_new [Tick 380 100 1000 1 0.5, Tick 380 100 300000 1 0.5]) =
     Inr \<lparr> revenueValue = 281736, profitValue = 225057.7, savingsValue = 331130.1,
           roiValue = 10.76688, revenue30d = 168480, profit30d = 134586 \<rparr> \<and>
   map day (history (run ChemistryEngine_new
     [Tick 380 100 1000 1 0.5, Tick 380 100 300000 1 0.5, Tick 380 100 300000 1 0.5])) =
     [0, 50, 100] \<and>
   updateUI (run ChemistryEngine_new
     [Tick 380 100 1000 1 0.5, Tick 380 100 300000 1 0.5, Tick 380 100 300000 1 0.5]) =
     Inr \<lparr> revenueValue = 562536, profitValue = 449367.7, savingsValue = 661160.1,
           roiValue = 0, revenue30d = 0, profit30d = 0 \<rparr>"
proof -
  define c2 where "c2 = run ChemistryEngine_new [Tick 380 100 1000 1 0.5, Tick 380 100 300000 1 0.5]"
  define c3 where "c3 = run ChemistryEngine_new
     [Tick 380 100 1000 1 0.5, Tick 380 100 300000 1 0.5, Tick 380 100 300000 1 0.5]"
  note cfg = F_TO_CAF2_def F_TO_CACL2_def PRICE_ACIDSPAR_def PRICE_METALSPAR_def
    COST_CACL2_def AVOIDED_COST_LIME_SLUDGE_def OPEX_FIXED_DAY_def
  note flds = calculateReaction_totalRevenue calculateReaction_totalVariableCost
    calculateReaction_totalSavings calculateReaction_simTimeMs calculateReaction_totalFixedCost
    calculateReaction_purityMix calculateReaction_masses
  have f2: "totalRevenue c2 = 281736" "totalVariableCost c2 = 147008.4"
    "totalSavings c2 = 331130.1" "simTimeMs c2 = 4334400000" "totalFixedCost c2 = 240800"
    unfolding c2_def by (simp_all add: flds ChemistryEngine_new_def cfg)
  have "map day (history c2) = [0, 50]"
    unfolding c2_def
    by (simp add: calculateReaction_history calculateReaction_lastSnapshotDay
        calculateReaction_simTimeMs Let_def ChemistryEngine_new_def)
  then have l2: "length (history c2) \<le> 2"
    by (metis length_map list.size(3,4) One_nat_def Suc_1 add.right_neutral add_Suc_right le_refl)
  have u2: "updateUI c2 =
     Inr \<lparr> revenueValue = 281736, profitValue = 225057.7, savingsValue = 331130.1,
           roiValue = 10.76688, revenue30d = 168480, profit30d = 134586 \<rparr>"
    by (simp add: updateUI_def window30_short [OF l2] f2 CAPEX_def)
  have f3: "totalRevenue c3 = 562536" "totalVariableCost c3 = 293528.4"
    "totalSavings c3 = 661160.1" "simTimeMs c3 = 8654400000" "totalFixedCost c3 = 480800"
    unfolding c3_def by (simp_all add: flds ChemistryEngine_new_def cfg)
  have d3: "map day (history c3) = [0, 50, 100]"
    unfolding c3_def by (rule three_daily_jumps)
  then obtain s0 s1 s2 where h: "history c3 = [s0, s1, s2]"
    and days: "day s0 = 0" "day s1 = 50" "day s2 = 100"
    by (auto simp: map_eq_Cons_conv)
  have l3: "2 < length (history c3)"
    by (simp add: h)
  have w3: "window30 c3 netProfit totalDays (0, 0) = Inr (0, 0)" for netProfit totalDays
    by (simp add: window30_long [OF l3] h days Let_def)
  have u3: "updateUI c3 =
     Inr \<lparr> revenueValue = 562536, profitValue = 449367.7, savingsValue = 661160.1,
           roiValue = 0, revenue30d = 0, profit30d = 0 \<rparr>"
    by (simp add: updateUI_def w3 f3 CAPEX_def)
  from u2 d3 u3 show ?thesis
    unfolding c2_def c3_def by (intro conjI)
qed

subsection \<open>Removal while iterating\<close>

lemma forEach_pair_removed:
  assumes "isOutOfBounds (Particle_update p dt fluidVelocity centerY) centerY \<or>
           isDead (Particle_update p dt fluidVelocity centerY)"
  shows "forEach (advanceOrRemove dt fluidVelocity centerY) [p, q] = [q]"
proof -
  have "[0..<length [p, q]] = [0, Suc 0]"
    by (simp add: upt_rec)
  then show ?thesis
    using assms by (simp add: forEach_def advanceOrRemove_def Let_def)
qed

text \<open>
  C4 fails on the code. A fluid particle one step from the upper bound (after 51 updates
  at flow rate 450 and speed 1) is followed in the array by a new crystal. The call
  removes the fluid particle at index 0; the crystal moves down to index 0, index 1 is
  no longer in the array when \<^verbatim>\<open>forEach\<close> comes to it, and the crystal is left as it was:
  not advanced, although an update would have moved it.
\<close>

theorem updateParticles_skips_after_removal:
  "particles (updateParticles
      \<lparr> particles =
          [\<lparr> x_p = 400, y_p = 21, size_p = 2.5, type_p = Fluid, vx = 0, vy = -1.5,
              alpha = 0.49, color = ''#39ff14'', sedimenting = False \<rparr>,
           \<lparr> x_p = 400, y_p = 480, size_p = 1, type_p = Crystal, vx = 0, vy = 1,
              alpha = 1, color = ''#00f2ff'', sedimenting = False \<rparr>] \<rparr>
      16 1 450 400 300 (\<lambda>n. 0.5)) =
     [\<lparr> x_p = 400, y_p = 480, size_p = 1, type_p = Crystal, vx = 0, vy = 1,
         alpha = 1, color = ''#00f2ff'', sedimenting = False \<rparr>] \<and>
   Particle_update
     \<lparr> x_p = 400, y_p = 480, size_p = 1, type_p = Crystal, vx = 0, vy = 1,
        alpha = 1, color = ''#00f2ff'', sedimenting = False \<rparr> 16 4.5 300 =
     \<lparr> x_p = 400, y_p = 480.51, size_p = 1, type_p = Crystal, vx = 0, vy = 0.51,
        alpha = 1, color = ''#00f2ff'', sedimenting = False \<rparr>"
proof -
  define p :: Particle where "p = \<lparr> x_p = 400, y_p = 21, size_p = 2.5, type_p = Fluid, vx = 0,
      vy = -1.5, alpha = 0.49, color = ''#39ff14'', sedimenting = False \<rparr>"
  define q :: Particle where "q = \<lparr> x_p = 400, y_p = 480, size_p = 1, type_p = Crystal, vx = 0,
      vy = 1, alpha = 1, color = ''#00f2ff'', sedimenting = False \<rparr>"
  have "y_p (Particle_update p 16 ((450 / 100) * 1) 300) = 12"
    by (simp add: Particle_update_def p_def Let_def)
  then have "isOutOfBounds (Particle_update p 16 ((450 / 100) * 1) 300) 300"
    by (simp add: isOutOfBounds_def)
  then have "forEach (advanceOrRemove 16 ((450 / 100) * 1) 300) [p, q] = [q]"
    by (intro forEach_pair_removed disjI1)
  then have 1: "particles (updateParticles \<lparr> particles = [p, q] \<rparr> 16 1 450 400 300 (\<lambda>n. 0.5)) = [q]"
    by (simp add: updateParticles_def Let_def)
  have 2: "Particle_update q 16 4.5 300 =
      \<lparr> x_p = 400, y_p = 480.51, size_p = 1, type_p = Crystal, vx = 0, vy = 0.51,
        alpha = 1, color = ''#00f2ff'', sedimenting = False \<rparr>"
    by (simp add: Particle_update_def q_def Let_def)
  from 1 2 show ?thesis
    unfolding p_def q_def by (rule conjI)
qed

end
